theory Spec2Isabelle
  imports Complex_Main "HOL-Library.AList"
begin

section \<open>The CPU statistics cache of Glances (glances/cpu_percent.py)\<close>

text \<open>
  The class \<open>CpuPercent\<close> keeps three cached values (the aggregate CPU percent, the
  per-CPU list and the CPU information dictionary), each behind a timer of its own.
  The object is a record that every method takes and returns; what the method reads
  from outside (the clock, psutil, /proc/cpuinfo) is a record \<open>env\<close> given to the call.
  Every method returns its result or the exception it raises, the object as the call
  leaves it, and the list of the calls it made to the outside.

  Python floats are idealised as reals: the properties below are about which value is stored where,
  not about the rounding error of a subtraction.
\<close>

subsection \<open>Python values, exceptions, dictionaries\<close>

datatype pyexc = AttributeError | IndexError | IOError | OSError

datatype pyval = PStr string | PInt int | PFloat real

type_synonym dict = "(string \<times> pyval) list"

text \<open>\<open>d[k] = v\<close>: an existing key keeps its place, a new one goes last.\<close>

definition setitem :: "string \<Rightarrow> pyval \<Rightarrow> dict \<Rightarrow> dict" where
  "setitem k v d = AList.update k v d"

definition keys :: "dict \<Rightarrow> string list" where
  "keys d = map fst d"

text \<open>\<open>xs[i]\<close> for \<open>i \<ge> 0\<close>: IndexError out of range.\<close>

definition getitem :: "'a list \<Rightarrow> nat \<Rightarrow> pyexc + 'a" where
  "getitem xs i = (if i < length xs then Inr (xs ! i) else Inl IndexError)"

text \<open>\<open>s.split(c)\<close> for a separator of one character.\<close>

fun str_split :: "char \<Rightarrow> string \<Rightarrow> string list" where
  "str_split c [] = [[]]"
| "str_split c (x # xs) =
     (if x = c then [] # str_split c xs
      else (case str_split c xs of
              [] \<Rightarrow> [[x]]
            | p # ps \<Rightarrow> (x # p) # ps))"

text \<open>\<open>s[1:-2]\<close>: the characters at the indices \<open>1 \<le> i < len(s) - 2\<close>.\<close>

definition slice_1_m2 :: "string \<Rightarrow> string" where
  "slice_1_m2 s = take (length s - 3) (drop 1 s)"

text \<open>\<open>round(x, ndigits)\<close> of Python 3 on an exact value: half goes to even.\<close>

definition round_half_even :: "real \<Rightarrow> int" where
  "round_half_even x =
     (let f = \<lfloor>x\<rfloor>; d = x - of_int f
      in if d < 1 / 2 then f
         else if 1 / 2 < d then f + 1
         else if even f then f else f + 1)"

definition py_round :: "real \<Rightarrow> nat \<Rightarrow> real" where
  "py_round x ndigits = of_int (round_half_even (x * 10 ^ ndigits)) / 10 ^ ndigits"

subsection \<open>The timer\<close>

text \<open>
  Modelled from the spec: the class \<open>Timer\<close> of \<open>glances.timer\<close>, which is imported
  and not among the sources. The spec's RefreshTimer has an absolute \<open>expiry\<close>, is created
  with a duration offset from now, and is due if and only if the current time is at least
  the expiry; a duration of zero means immediately due.
\<close>

record timer =
  expiry :: real

definition Timer :: "real \<Rightarrow> real \<Rightarrow> timer" where
  "Timer now duration = \<lparr>expiry = now + duration\<rparr>"

definition finished :: "timer \<Rightarrow> real \<Rightarrow> bool" where
  "finished t now = (expiry t \<le> now)"

subsection \<open>What a call reads from outside\<close>

text \<open>
  A record of \<open>psutil.cpu_times_percent(percpu=True)\<close> is an object with attributes; the
  code reads \<open>idle\<close>, \<open>user\<close> and \<open>system\<close> and asks \<open>hasattr\<close> for seven more. It is
  the list of its attributes with their values.
\<close>

type_synonym cputimes = "(string \<times> real) list"

definition hasattr :: "cputimes \<Rightarrow> string \<Rightarrow> bool" where
  "hasattr c a = (map_of c a \<noteq> None)"

definition getattr :: "cputimes \<Rightarrow> string \<Rightarrow> pyexc + real" where
  "getattr c a = (case map_of c a of None \<Rightarrow> Inl AttributeError | Some v \<Rightarrow> Inr v)"

text \<open>\<open>psutil.cpu_freq()\<close> returns a named tuple, or None where the platform has no frequency.\<close>

record scpufreq =
  current_hz :: real
  min_hz :: real
  max_hz :: real

text \<open>
  One call of a method happens at one instant \<open>clock\<close> (psutil is asked with
  \<open>interval=0.0\<close> and does not sleep). \<open>get_info\<close> calls \<open>psutil.cpu_freq()\<close> twice, so
  the environment holds the answer to each of the two calls. \<open>proc_cpuinfo\<close> is what
  \<open>open('/proc/cpuinfo', 'r').readlines()\<close> gives: the lines, each with its newline, or
  the exception.
\<close>

record env =
  clock :: real
  psutil_cpu_percent :: "pyexc + real"
  psutil_cpu_times_percent :: "pyexc + cputimes list"
  psutil_cpu_freq_1 :: "pyexc + scpufreq option"
  psutil_cpu_freq_2 :: "pyexc + scpufreq option"
  proc_cpuinfo :: "pyexc + string list"

datatype call = Call_cpu_percent | Call_cpu_times_percent | Call_cpu_freq | Open_proc_cpuinfo

subsection \<open>The class CpuPercent\<close>

record CpuPercent =
  cpu_info :: dict
  cpu_percent :: real
  percpu_percent :: "dict list"
  cached_time :: real
  timer_cpu_info :: timer
  timer_cpu :: timer
  timer_percpu :: timer

text \<open>
  \<open>__init__(self, cached_time=1)\<close>, run at the instant \<open>now\<close>. The body assigns the
  constant 1 to \<open>self.cached_time\<close>; the argument is not read.
\<close>

definition init :: "real \<Rightarrow> real \<Rightarrow> CpuPercent" where
  "init now cached_time_arg =
     \<lparr>cpu_info = [], cpu_percent = 0, percpu_percent = [], cached_time = 1,
      timer_cpu_info = Timer now 0, timer_cpu = Timer now 0, timer_percpu = Timer now 0\<rparr>"

definition get_key :: string where
  "get_key = ''cpu_number''"

type_synonym 'a outcome = "(pyexc + 'a) \<times> CpuPercent \<times> call list"

definition result :: "'a outcome \<Rightarrow> pyexc + 'a" where
  "result r = fst r"

definition state :: "'a outcome \<Rightarrow> CpuPercent" where
  "state r = fst (snd r)"

definition calls :: "'a outcome \<Rightarrow> call list" where
  "calls r = snd (snd r)"

text \<open>\<open>__get_cpu\<close>\<close>

definition get_cpu :: "env \<Rightarrow> CpuPercent \<Rightarrow> real outcome" where
  "get_cpu e s =
     (if finished (timer_cpu s) (clock e) then
        (case psutil_cpu_percent e of
           Inl x \<Rightarrow> (Inl x, s, [Call_cpu_percent])
         | Inr v \<Rightarrow>
             (let s1 = s\<lparr>cpu_percent := v\<rparr>;
                  s2 = s1\<lparr>timer_cpu := Timer (clock e) (cached_time s1)\<rparr>
              in (Inr (cpu_percent s2), s2, [Call_cpu_percent])))
      else (Inr (cpu_percent s), s, []))"

text \<open>
  \<open>__get_percpu\<close>. The dictionary of one CPU: the display evaluates \<open>cputimes.idle\<close>,
  \<open>cputimes.user\<close>, \<open>cputimes.system\<close> and \<open>cputimes.idle\<close> again, each an AttributeError
  on a record without it; then the seven \<open>hasattr\<close> tests in the order of the source.
\<close>

definition copy_if_hasattr :: "cputimes \<Rightarrow> string \<Rightarrow> dict \<Rightarrow> dict" where
  "copy_if_hasattr c a d =
     (if hasattr c a then
        (case getattr c a of Inl x \<Rightarrow> d | Inr v \<Rightarrow> setitem a (PFloat v) d)
      else d)"

definition optional_stats :: "string list" where
  "optional_stats = [''nice'', ''iowait'', ''irq'', ''softirq'', ''steal'', ''guest'', ''guest_nice'']"

definition make_cpu :: "nat \<Rightarrow> cputimes \<Rightarrow> pyexc + dict" where
  "make_cpu cpu_number c =
     (case getattr c ''idle'' of Inl x \<Rightarrow> Inl x | Inr idle0 \<Rightarrow>
     (case getattr c ''user'' of Inl x \<Rightarrow> Inl x | Inr user \<Rightarrow>
     (case getattr c ''system'' of Inl x \<Rightarrow> Inl x | Inr system \<Rightarrow>
     (case getattr c ''idle'' of Inl x \<Rightarrow> Inl x | Inr idle \<Rightarrow>
        Inr (fold (copy_if_hasattr c) optional_stats
               [(''key'', PStr get_key),
                (''cpu_number'', PInt (int cpu_number)),
                (''total'', PFloat (py_round (100 - idle0) 1)),
                (''user'', PFloat user),
                (''system'', PFloat system),
                (''idle'', PFloat idle)])))))"

text \<open>
  The \<open>for\<close> loop over \<open>enumerate(...)\<close>: each turn appends the CPU's dictionary to
  \<open>self.percpu_percent\<close> and then replaces \<open>self.timer_percpu\<close>, both inside the loop
  body. A turn that raises leaves the object as the turns before it made it.
\<close>

fun percpu_loop :: "real \<Rightarrow> nat \<Rightarrow> cputimes list \<Rightarrow> CpuPercent \<Rightarrow> pyexc option \<times> CpuPercent" where
  "percpu_loop now cpu_number [] s = (None, s)"
| "percpu_loop now cpu_number (c # cs) s =
     (case make_cpu cpu_number c of
        Inl x \<Rightarrow> (Some x, s)
      | Inr cpu \<Rightarrow>
          (let s1 = s\<lparr>percpu_percent := percpu_percent s @ [cpu]\<rparr>;
               s2 = s1\<lparr>timer_percpu := Timer now (cached_time s1)\<rparr>
           in percpu_loop now (Suc cpu_number) cs s2))"

definition get_percpu :: "env \<Rightarrow> CpuPercent \<Rightarrow> (dict list) outcome" where
  "get_percpu e s =
     (if finished (timer_percpu s) (clock e) then
        (let s0 = s\<lparr>percpu_percent := []\<rparr>
         in case psutil_cpu_times_percent e of
              Inl x \<Rightarrow> (Inl x, s0, [Call_cpu_times_percent])
            | Inr recs \<Rightarrow>
                (case percpu_loop (clock e) 0 recs s0 of
                   (Some x, s1) \<Rightarrow> (Inl x, s1, [Call_cpu_times_percent])
                 | (None, s1) \<Rightarrow> (Inr (percpu_percent s1), s1, [Call_cpu_times_percent])))
      else (Inr (percpu_percent s), s, []))"

text \<open>\<open>get(percpu)\<close> returns the number or the list.\<close>

datatype stats = Cpu real | PerCpu "dict list"

definition get :: "env \<Rightarrow> bool \<Rightarrow> CpuPercent \<Rightarrow> stats outcome" where
  "get e percpu s =
     (if percpu then
        (case get_percpu e s of (r, s1, tr) \<Rightarrow> (map_sum id PerCpu r, s1, tr))
      else
        (case get_cpu e s of (r, s1, tr) \<Rightarrow> (map_sum id Cpu r, s1, tr)))"

text \<open>
  \<open>get_info\<close>. The name is \<open>open('/proc/cpuinfo', 'r').readlines()[4].split(':')[1][1:-2]\<close>
  inside \<open>try\<close>, with \<open>'CPU'\<close> on any exception; the two frequencies come from two calls
  of \<open>psutil.cpu_freq()\<close>, outside the \<open>try\<close>, and an attribute of None is an
  AttributeError.
\<close>

definition read_cpu_name :: "pyexc + string list \<Rightarrow> pyexc + string" where
  "read_cpu_name f =
     (case f of Inl x \<Rightarrow> Inl x | Inr lines \<Rightarrow>
     (case getitem lines 4 of Inl x \<Rightarrow> Inl x | Inr line \<Rightarrow>
     (case getitem (str_split (CHR '':'') line) 1 of Inl x \<Rightarrow> Inl x | Inr field \<Rightarrow>
        Inr (slice_1_m2 field))))"

definition cpu_name :: "pyexc + string list \<Rightarrow> string" where
  "cpu_name f = (case read_cpu_name f of Inl x \<Rightarrow> ''CPU'' | Inr n \<Rightarrow> n)"

definition freq_attr :: "(scpufreq \<Rightarrow> real) \<Rightarrow> pyexc + scpufreq option \<Rightarrow> pyexc + real" where
  "freq_attr field r =
     (case r of Inl x \<Rightarrow> Inl x
      | Inr None \<Rightarrow> Inl AttributeError
      | Inr (Some f) \<Rightarrow> Inr (field f))"

definition get_info :: "env \<Rightarrow> CpuPercent \<Rightarrow> dict outcome" where
  "get_info e s =
     (if finished (timer_cpu_info s) (clock e) then
        (let s1 = s\<lparr>cpu_info := setitem ''cpu_name'' (PStr (cpu_name (proc_cpuinfo e))) (cpu_info s)\<rparr>
         in case freq_attr current_hz (psutil_cpu_freq_1 e) of
              Inl x \<Rightarrow> (Inl x, s1, [Open_proc_cpuinfo, Call_cpu_freq])
            | Inr cur \<Rightarrow>
                (let s2 = s1\<lparr>cpu_info := setitem ''cpu_hz_current'' (PFloat cur) (cpu_info s1)\<rparr>
                 in case freq_attr max_hz (psutil_cpu_freq_2 e) of
                      Inl x \<Rightarrow> (Inl x, s2, [Open_proc_cpuinfo, Call_cpu_freq, Call_cpu_freq])
                    | Inr mx \<Rightarrow>
                        (let s3 = s2\<lparr>cpu_info := setitem ''cpu_hz'' (PFloat mx) (cpu_info s2)\<rparr>;
                             s4 = s3\<lparr>timer_cpu_info := Timer (clock e) (cached_time s3)\<rparr>
                         in (Inr (cpu_info s4), s4,
                             [Open_proc_cpuinfo, Call_cpu_freq, Call_cpu_freq]))))
      else (Inr (cpu_info s), s, []))"

subsection \<open>The objects a program can hold\<close>

text \<open>
  An object is made by the constructor and changed by its methods only; \<open>get\<close> goes
  through \<open>__get_cpu\<close> or \<open>__get_percpu\<close>.
\<close>

inductive reachable :: "CpuPercent \<Rightarrow> bool" where
  reachable_init: "reachable (init now c)"
| reachable_get_cpu: "reachable s \<Longrightarrow> reachable (state (get_cpu e s))"
| reachable_get_percpu: "reachable s \<Longrightarrow> reachable (state (get_percpu e s))"
| reachable_get_info: "reachable s \<Longrightarrow> reachable (state (get_info e s))"

subsection \<open>Example inputs\<close>

text \<open>
  Two records as Linux gives them (the second with some of the optional attributes), a
  record without \<open>idle\<close>, six lines of /proc/cpuinfo, and the answers of the outside at an
  instant \<open>t\<close>: everything works (\<open>env_ok\<close>), everything fails and the platform has no
  frequency (\<open>env_fail\<close>), and variations of \<open>env_ok\<close>.
\<close>

definition rec_a :: cputimes where
  "rec_a = [(''user'', 20), (''system'', 10), (''idle'', 70)]"

definition rec_b :: cputimes where
  "rec_b = [(''user'', 5), (''nice'', 1), (''system'', 4.75), (''idle'', 89.25), (''iowait'', 0)]"

definition rec_no_idle :: cputimes where
  "rec_no_idle = [(''user'', 5), (''system'', 5)]"

definition cpuinfo_lines :: "string list" where
  "cpuinfo_lines =
     [''processor : 0\<newline>'', ''vendor_id : GenuineIntel\<newline>'', ''cpu family : 6\<newline>'',
      ''model : 85\<newline>'', ''model name : Intel Xeon\<newline>'', ''stepping : 7\<newline>'']"

definition env_ok :: "real \<Rightarrow> env" where
  "env_ok t =
     \<lparr>clock = t, psutil_cpu_percent = Inr 12.5,
      psutil_cpu_times_percent = Inr [rec_a, rec_b],
      psutil_cpu_freq_1 = Inr (Some \<lparr>current_hz = 2400, min_hz = 800, max_hz = 3600\<rparr>),
      psutil_cpu_freq_2 = Inr (Some \<lparr>current_hz = 2500, min_hz = 800, max_hz = 3600\<rparr>),
      proc_cpuinfo = Inr cpuinfo_lines\<rparr>"

definition env_fail :: "real \<Rightarrow> env" where
  "env_fail t =
     \<lparr>clock = t, psutil_cpu_percent = Inl OSError,
      psutil_cpu_times_percent = Inl OSError,
      psutil_cpu_freq_1 = Inr None,
      psutil_cpu_freq_2 = Inr None,
      proc_cpuinfo = Inl IOError\<rparr>"

definition cpu_a :: dict where
  "cpu_a = [(''key'', PStr ''cpu_number''), (''cpu_number'', PInt 0), (''total'', PFloat 30),
            (''user'', PFloat 20), (''system'', PFloat 10), (''idle'', PFloat 70)]"

definition cpu_b :: dict where
  "cpu_b = [(''key'', PStr ''cpu_number''), (''cpu_number'', PInt 1), (''total'', PFloat (54 / 5)),
            (''user'', PFloat 5), (''system'', PFloat (19 / 4)), (''idle'', PFloat (357 / 4)),
            (''nice'', PFloat 1), (''iowait'', PFloat 0)]"


definition env_bad :: "real \<Rightarrow> env" where
  "env_bad t = (env_ok t)\<lparr>psutil_cpu_times_percent := Inr [rec_a, rec_no_idle]\<rparr>"

definition env_no_max :: "real \<Rightarrow> env" where
  "env_no_max t = (env_ok t)\<lparr>psutil_cpu_freq_2 := Inr None\<rparr>"

definition env_no_name :: "real \<Rightarrow> env" where
  "env_no_name t = (env_ok t)\<lparr>proc_cpuinfo := Inl IOError\<rparr>"

definition info_ok :: dict where
  "info_ok = [(''cpu_name'', PStr ''Intel Xeo''), (''cpu_hz_current'', PFloat 2400),
              (''cpu_hz'', PFloat 3600)]"

text \<open>The object after a first, successful \<open>get(percpu=True)\<close> and after a first, successful \<open>get_info()\<close>.\<close>

definition after_refresh :: CpuPercent where
  "after_refresh = (init 0 1)\<lparr>percpu_percent := [cpu_a, cpu_b], timer_percpu := Timer 0 1\<rparr>"


section \<open>Lemmas about the model\<close>

lemmas example_defs = rec_a_def rec_b_def cpuinfo_lines_def env_ok_def env_fail_def
  cpu_a_def cpu_b_def info_ok_def

lemmas model_defs = init_def Timer_def finished_def result_def state_def calls_def
  get_cpu_def get_percpu_def get_info_def make_cpu_def getattr_def hasattr_def
  copy_if_hasattr_def optional_stats_def setitem_def keys_def get_key_def
  py_round_def round_half_even_def cpu_name_def read_cpu_name_def getitem_def
  slice_1_m2_def freq_attr_def Let_def

subsection \<open>The example inputs, evaluated\<close>

lemma get_percpu_env_ok:
  "get_percpu (env_ok 0) (init 0 c) =
     (Inr [cpu_a, cpu_b],
      (init 0 c)\<lparr>percpu_percent := [cpu_a, cpu_b], timer_percpu := Timer 0 1\<rparr>,
      [Call_cpu_times_percent])"
  by (simp add: model_defs example_defs)

lemma get_info_env_ok:
  "get_info (env_ok 0) (init 0 c) =
     (Inr info_ok,
      (init 0 c)\<lparr>cpu_info := info_ok, timer_cpu_info := Timer 0 1\<rparr>,
      [Open_proc_cpuinfo, Call_cpu_freq, Call_cpu_freq])"
  by (simp add: model_defs example_defs)

lemma due_at_start:
  "finished (timer_cpu (init 0 c)) 0"
  "finished (timer_percpu (init 0 c)) 0"
  "finished (timer_cpu_info (init 0 c)) 0"
  by (simp_all add: init_def Timer_def finished_def)

lemma clock_examples [simp]:
  "clock (env_ok t) = t" "clock (env_fail t) = t"
  by (simp_all add: example_defs)

subsection \<open>Dictionaries and records\<close>

lemma map_of_setitem: "map_of (setitem k v d) = (map_of d)(k \<mapsto> v)"
  by (simp add: setitem_def update_conv')

lemma keys_setitem: "set (keys (setitem k v d)) = insert k (set (keys d))"
  by (simp add: setitem_def keys_def dom_update)


lemma getattr_Inr: "(getattr c a = Inr v) = (map_of c a = Some v)"
  by (simp add: getattr_def split: option.splits)

lemma map_of_copy_if_hasattr:
  "map_of (copy_if_hasattr c a d) k =
     (if k = a \<and> hasattr c a then map_option PFloat (map_of c a) else map_of d k)"
  by (auto simp: copy_if_hasattr_def hasattr_def getattr_def map_of_setitem split: option.splits)

lemma map_of_fold_copy_if_hasattr:
  "map_of (fold (copy_if_hasattr c) as d) k =
     (if k \<in> set as \<and> hasattr c k then map_option PFloat (map_of c k) else map_of d k)"
proof (induction as arbitrary: d)
  case Nil
  show ?case by simp
next
  case (Cons a as)
  show ?case
    by (auto simp: Cons.IH map_of_copy_if_hasattr)
qed

lemma make_cpu_Inr:
  assumes "make_cpu n c = Inr d"
  shows "\<exists>idle user system.
           getattr c ''idle'' = Inr idle \<and> getattr c ''user'' = Inr user \<and>
           getattr c ''system'' = Inr system \<and>
           d = fold (copy_if_hasattr c) optional_stats
                 [(''key'', PStr get_key),
                  (''cpu_number'', PInt (int n)),
                  (''total'', PFloat (py_round (100 - idle) 1)),
                  (''user'', PFloat user),
                  (''system'', PFloat system),
                  (''idle'', PFloat idle)]"
  using assms by (auto simp: make_cpu_def split: sum.splits)

lemma make_cpu_fields:
  assumes "make_cpu n c = Inr d"
  shows "\<exists>idle user system.
           getattr c ''idle'' = Inr idle \<and> getattr c ''user'' = Inr user \<and>
           getattr c ''system'' = Inr system \<and>
           map_of d ''key'' = Some (PStr get_key) \<and>
           map_of d ''cpu_number'' = Some (PInt (int n)) \<and>
           map_of d ''total'' = Some (PFloat (py_round (100 - idle) 1)) \<and>
           map_of d ''user'' = Some (PFloat user) \<and>
           map_of d ''system'' = Some (PFloat system) \<and>
           map_of d ''idle'' = Some (PFloat idle)"
proof -
  from make_cpu_Inr [OF assms] obtain idle user system where
    a: "getattr c ''idle'' = Inr idle" "getattr c ''user'' = Inr user"
       "getattr c ''system'' = Inr system"
    and d: "d = fold (copy_if_hasattr c) optional_stats
                 [(''key'', PStr get_key),
                  (''cpu_number'', PInt (int n)),
                  (''total'', PFloat (py_round (100 - idle) 1)),
                  (''user'', PFloat user),
                  (''system'', PFloat system),
                  (''idle'', PFloat idle)]"
    by blast
  have "map_of d ''key'' = Some (PStr get_key)"
    and "map_of d ''cpu_number'' = Some (PInt (int n))"
    and "map_of d ''total'' = Some (PFloat (py_round (100 - idle) 1))"
    and "map_of d ''user'' = Some (PFloat user)"
    and "map_of d ''system'' = Some (PFloat system)"
    and "map_of d ''idle'' = Some (PFloat idle)"
    unfolding d
    by (simp_all only: map_of_fold_copy_if_hasattr) (simp_all add: optional_stats_def)
  with a show ?thesis by blast
qed


subsection \<open>The loop of \<open>__get_percpu\<close>\<close>

lemma percpu_loop_frame:
  "percpu_loop now n cs s = (r, s') \<Longrightarrow>
     cpu_info s' = cpu_info s \<and> cpu_percent s' = cpu_percent s \<and>
     cached_time s' = cached_time s \<and> timer_cpu s' = timer_cpu s \<and>
     timer_cpu_info s' = timer_cpu_info s"
proof (induction cs arbitrary: n s)
  case Nil
  then show ?case by simp
next
  case (Cons c cs)
  show ?case
  proof (cases "make_cpu n c")
    case (Inl x)
    with Cons.prems show ?thesis by simp
  next
    case (Inr cpu)
    with Cons.prems have "percpu_loop now (Suc n) cs
        (s\<lparr>percpu_percent := percpu_percent s @ [cpu],
           timer_percpu := Timer now (cached_time s)\<rparr>) = (r, s')"
      by (simp add: Let_def)
    from Cons.IH [OF this] show ?thesis by simp
  qed
qed

lemma percpu_loop_None:
  "percpu_loop now n cs s = (None, s') \<Longrightarrow>
     \<exists>ds. percpu_percent s' = percpu_percent s @ ds \<and> length ds = length cs \<and>
          (\<forall>i<length cs. make_cpu (n + i) (cs ! i) = Inr (ds ! i))"
proof (induction cs arbitrary: n s)
  case Nil
  then show ?case by simp
next
  case (Cons c cs)
  from Cons.prems obtain cpu where cpu: "make_cpu n c = Inr cpu"
    by (cases "make_cpu n c") auto
  define s2 where "s2 = s\<lparr>percpu_percent := percpu_percent s @ [cpu],
                          timer_percpu := Timer now (cached_time s)\<rparr>"
  from Cons.prems cpu have "percpu_loop now (Suc n) cs s2 = (None, s')"
    by (simp add: s2_def Let_def)
  from Cons.IH [OF this] obtain ds where
    ds: "percpu_percent s' = percpu_percent s2 @ ds" "length ds = length cs"
        "\<forall>i<length cs. make_cpu (Suc n + i) (cs ! i) = Inr (ds ! i)"
    by blast
  have "percpu_percent s' = percpu_percent s @ (cpu # ds)"
    using ds(1) by (simp add: s2_def)
  moreover have "length (cpu # ds) = length (c # cs)"
    using ds(2) by simp
  moreover have "\<forall>i<length (c # cs). make_cpu (n + i) ((c # cs) ! i) = Inr ((cpu # ds) ! i)"
  proof (intro allI impI)
    fix i assume "i < length (c # cs)"
    then show "make_cpu (n + i) ((c # cs) ! i) = Inr ((cpu # ds) ! i)"
      using cpu ds(3) by (cases i) auto
  qed
  ultimately show ?case by blast
qed


lemma get_percpu_refreshed:
  assumes due: "finished (timer_percpu s) (clock e)"
      and recs: "psutil_cpu_times_percent e = Inr recs"
      and res: "result (get_percpu e s) = Inr cpus"
  shows "percpu_loop (clock e) 0 recs (s\<lparr>percpu_percent := []\<rparr>) = (None, state (get_percpu e s))"
    and "percpu_percent (state (get_percpu e s)) = cpus"
    and "calls (get_percpu e s) = [Call_cpu_times_percent]"
  using assms
  by (auto simp: get_percpu_def result_def state_def calls_def Let_def
           split: prod.splits option.splits)

lemma get_percpu_samples:
  assumes due: "finished (timer_percpu s) (clock e)"
      and recs: "psutil_cpu_times_percent e = Inr recs"
      and res: "result (get_percpu e s) = Inr cpus"
  shows "length cpus = length recs \<and> (\<forall>i<length recs. make_cpu i (recs ! i) = Inr (cpus ! i))"
proof -
  from percpu_loop_None [OF get_percpu_refreshed(1) [OF assms]]
    get_percpu_refreshed(2) [OF assms]
  show ?thesis by auto
qed

lemma calls_get_percpu_due:
  "finished (timer_percpu s) (clock e) \<Longrightarrow> calls (get_percpu e s) = [Call_cpu_times_percent]"
  by (simp add: get_percpu_def calls_def Let_def split: sum.splits prod.splits option.splits)

subsection \<open>What a method leaves alone\<close>

lemma get_cpu_frame:
  "cpu_info (state (get_cpu e s)) = cpu_info s"
  "percpu_percent (state (get_cpu e s)) = percpu_percent s"
  "cached_time (state (get_cpu e s)) = cached_time s"
  "timer_cpu_info (state (get_cpu e s)) = timer_cpu_info s"
  "timer_percpu (state (get_cpu e s)) = timer_percpu s"
  by (simp_all add: get_cpu_def state_def Let_def split: sum.splits)

lemma get_info_frame:
  "cpu_percent (state (get_info e s)) = cpu_percent s"
  "percpu_percent (state (get_info e s)) = percpu_percent s"
  "cached_time (state (get_info e s)) = cached_time s"
  "timer_cpu (state (get_info e s)) = timer_cpu s"
  "timer_percpu (state (get_info e s)) = timer_percpu s"
  by (simp_all add: get_info_def state_def Let_def split: sum.splits)

lemma get_percpu_frame:
  "cpu_info (state (get_percpu e s)) = cpu_info s"
  "cpu_percent (state (get_percpu e s)) = cpu_percent s"
  "cached_time (state (get_percpu e s)) = cached_time s"
  "timer_cpu (state (get_percpu e s)) = timer_cpu s"
  "timer_cpu_info (state (get_percpu e s)) = timer_cpu_info s"
  by (auto simp: get_percpu_def state_def Let_def
           split: sum.splits prod.splits option.splits dest: percpu_loop_frame)

lemma reachable_cached_time: "reachable s \<Longrightarrow> cached_time s = 1"
  by (induction rule: reachable.induct)
     (simp_all add: init_def get_cpu_frame get_percpu_frame get_info_frame)

lemma info_keys_get_info:
  "set (keys (cpu_info s)) \<subseteq> {''cpu_name'', ''cpu_hz_current'', ''cpu_hz''} \<Longrightarrow>
   set (keys (cpu_info (state (get_info e s)))) \<subseteq> {''cpu_name'', ''cpu_hz_current'', ''cpu_hz''}"
  by (auto simp: get_info_def state_def Let_def keys_setitem split: sum.splits)

lemma reachable_info_keys:
  "reachable s \<Longrightarrow> set (keys (cpu_info s)) \<subseteq> {''cpu_name'', ''cpu_hz_current'', ''cpu_hz''}"
proof (induction rule: reachable.induct)
  case (reachable_init now c)
  show ?case by (simp add: init_def keys_def)
next
  case (reachable_get_cpu s e)
  then show ?case by (simp add: get_cpu_frame)
next
  case (reachable_get_percpu s e)
  then show ?case by (simp add: get_percpu_frame)
next
  case (reachable_get_info s e)
  from reachable_get_info.IH show ?case by (rule info_keys_get_info)
qed

lemma info_keys_complete_get_info:
  assumes "set (keys (cpu_info s)) = {''cpu_name'', ''cpu_hz_current'', ''cpu_hz''}"
  shows "set (keys (cpu_info (state (get_info e s)))) = {''cpu_name'', ''cpu_hz_current'', ''cpu_hz''}"
  using assms
  by (auto simp: get_info_def state_def Let_def keys_setitem split: sum.splits)

lemma get_info_returns_stored:
  "result (get_info e s) = Inr d \<Longrightarrow> cpu_info (state (get_info e s)) = d"
  by (auto simp: get_info_def result_def state_def Let_def split: sum.splits if_splits)

subsection \<open>\<open>get\<close> is one of the two private methods\<close>

lemma get_percpu_flag:
  "calls (get e True s) = calls (get_percpu e s)"
  "state (get e True s) = state (get_percpu e s)"
  "result (get e True s) = map_sum id PerCpu (result (get_percpu e s))"
  by (simp_all add: get_def calls_def state_def result_def split: prod.splits)

lemma get_cpu_flag:
  "calls (get e False s) = calls (get_cpu e s)"
  "state (get e False s) = state (get_cpu e s)"
  "result (get e False s) = map_sum id Cpu (result (get_cpu e s))"
  by (simp_all add: get_def calls_def state_def result_def split: prod.splits)

subsection \<open>A call before the timer expires\<close>




section \<open>Properties of the cache\<close>




text \<open>
  C2: the constructor called with the interval 5 stores 1 as \<open>cached_time\<close>; the first
  refresh sets the timer to expire one second later, and a call two seconds after the
  refresh, within the interval asked for, samples again.
\<close>

theorem C2_interval_argument_is_not_used:
  "cached_time (init 0 5) = 1 \<and>
   timer_cpu (state (get_cpu (env_ok 0) (init 0 5))) = Timer 0 1 \<and>
   calls (get_cpu (env_ok 2) (state (get_cpu (env_ok 0) (init 0 5)))) = [Call_cpu_percent]"
  by (simp add: get_cpu_def state_def calls_def env_ok_def init_def Timer_def finished_def)

text \<open>
  C3: what a failed refresh leaves behind. A failed \<open>psutil.cpu_percent\<close> leaves the whole
  object as it was. A failed \<open>psutil.cpu_times_percent\<close> leaves the per-CPU list empty
  (it is emptied before psutil is called) and the rest as it was. A failed frequency query
  leaves the information dictionary with the name just read (and with the current frequency
  when only the second query fails), the other keys and all timers as they were.
\<close>

theorem C3_state_after_a_failed_refresh:
  "(result (get_cpu e s) = Inl x \<longrightarrow> state (get_cpu e s) = s) \<and>
   (finished (timer_percpu s) (clock e) \<and> psutil_cpu_times_percent e = Inl x \<longrightarrow>
      get_percpu e s = (Inl x, s\<lparr>percpu_percent := []\<rparr>, [Call_cpu_times_percent])) \<and>
   (finished (timer_cpu_info s) (clock e) \<and> freq_attr current_hz (psutil_cpu_freq_1 e) = Inl x \<longrightarrow>
      get_info e s =
        (Inl x,
         s\<lparr>cpu_info := setitem ''cpu_name'' (PStr (cpu_name (proc_cpuinfo e))) (cpu_info s)\<rparr>,
         [Open_proc_cpuinfo, Call_cpu_freq])) \<and>
   (finished (timer_cpu_info s) (clock e) \<and> freq_attr current_hz (psutil_cpu_freq_1 e) = Inr cur \<and>
    freq_attr max_hz (psutil_cpu_freq_2 e) = Inl x \<longrightarrow>
      get_info e s =
        (Inl x,
         s\<lparr>cpu_info := setitem ''cpu_hz_current'' (PFloat cur)
                         (setitem ''cpu_name'' (PStr (cpu_name (proc_cpuinfo e))) (cpu_info s))\<rparr>,
         [Open_proc_cpuinfo, Call_cpu_freq, Call_cpu_freq]))"
proof (intro conjI impI)
  assume "result (get_cpu e s) = Inl x"
  then show "state (get_cpu e s) = s"
    by (auto simp: get_cpu_def result_def state_def Let_def split: if_splits sum.splits)
next
  assume "finished (timer_percpu s) (clock e) \<and> psutil_cpu_times_percent e = Inl x"
  then show "get_percpu e s = (Inl x, s\<lparr>percpu_percent := []\<rparr>, [Call_cpu_times_percent])"
    by (simp add: get_percpu_def)
next
  assume "finished (timer_cpu_info s) (clock e) \<and> freq_attr current_hz (psutil_cpu_freq_1 e) = Inl x"
  then show "get_info e s =
        (Inl x,
         s\<lparr>cpu_info := setitem ''cpu_name'' (PStr (cpu_name (proc_cpuinfo e))) (cpu_info s)\<rparr>,
         [Open_proc_cpuinfo, Call_cpu_freq])"
    by (simp add: get_info_def)
next
  assume "finished (timer_cpu_info s) (clock e) \<and> freq_attr current_hz (psutil_cpu_freq_1 e) = Inr cur \<and>
    freq_attr max_hz (psutil_cpu_freq_2 e) = Inl x"
  then show "get_info e s =
        (Inl x,
         s\<lparr>cpu_info := setitem ''cpu_hz_current'' (PFloat cur)
                         (setitem ''cpu_name'' (PStr (cpu_name (proc_cpuinfo e))) (cpu_info s))\<rparr>,
         [Open_proc_cpuinfo, Call_cpu_freq, Call_cpu_freq])"
    by (simp add: get_info_def)
qed

theorem C3_witness:
  "result (get_cpu (env_fail 0) (init 0 1)) = Inl OSError \<and>
   state (get_cpu (env_fail 0) (init 0 1)) = init 0 1 \<and>
   finished (timer_percpu (init 0 1)) (clock (env_fail 0)) \<and>
   psutil_cpu_times_percent (env_fail 0) = Inl OSError \<and>
   get_percpu (env_fail 0) (init 0 1) =
     (Inl OSError, (init 0 1)\<lparr>percpu_percent := []\<rparr>, [Call_cpu_times_percent]) \<and>
   finished (timer_cpu_info (init 0 1)) (clock (env_fail 0)) \<and>
   freq_attr current_hz (psutil_cpu_freq_1 (env_fail 0)) = Inl AttributeError \<and>
   get_info (env_fail 0) (init 0 1) =
     (Inl AttributeError,
      (init 0 1)\<lparr>cpu_info := setitem ''cpu_name'' (PStr (cpu_name (proc_cpuinfo (env_fail 0))))
                                (cpu_info (init 0 1))\<rparr>,
      [Open_proc_cpuinfo, Call_cpu_freq]) \<and>
   finished (timer_cpu_info (init 0 1)) (clock (env_no_max 0)) \<and>
   freq_attr current_hz (psutil_cpu_freq_1 (env_no_max 0)) = Inr 2400 \<and>
   freq_attr max_hz (psutil_cpu_freq_2 (env_no_max 0)) = Inl AttributeError \<and>
   get_info (env_no_max 0) (init 0 1) =
     (Inl AttributeError,
      (init 0 1)\<lparr>cpu_info := setitem ''cpu_hz_current'' (PFloat 2400)
                      (setitem ''cpu_name'' (PStr (cpu_name (proc_cpuinfo (env_no_max 0))))
                         (cpu_info (init 0 1)))\<rparr>,
      [Open_proc_cpuinfo, Call_cpu_freq, Call_cpu_freq])"
proof -
  have r: "result (get_cpu (env_fail 0) (init 0 1)) = Inl OSError"
    by (simp add: get_cpu_def result_def env_fail_def init_def Timer_def finished_def)
  have d: "finished (timer_percpu (init 0 1)) (clock (env_fail 0))"
    "finished (timer_cpu_info (init 0 1)) (clock (env_fail 0))"
    "finished (timer_cpu_info (init 0 1)) (clock (env_no_max 0))"
    by (simp_all add: due_at_start env_no_max_def)
  have p: "psutil_cpu_times_percent (env_fail 0) = Inl OSError"
    by (simp add: env_fail_def)
  have f: "freq_attr current_hz (psutil_cpu_freq_1 (env_fail 0)) = Inl AttributeError"
    by (simp add: env_fail_def freq_attr_def)
  have g: "freq_attr current_hz (psutil_cpu_freq_1 (env_no_max 0)) = Inr 2400"
    "freq_attr max_hz (psutil_cpu_freq_2 (env_no_max 0)) = Inl AttributeError"
    by (simp_all add: env_no_max_def env_ok_def freq_attr_def)
  from C3_state_after_a_failed_refresh [of "env_fail 0" "init 0 1" OSError] r d(1) p
  have "state (get_cpu (env_fail 0) (init 0 1)) = init 0 1"
    and "get_percpu (env_fail 0) (init 0 1) =
     (Inl OSError, (init 0 1)\<lparr>percpu_percent := []\<rparr>, [Call_cpu_times_percent])"
    by blast+
  moreover from C3_state_after_a_failed_refresh [of "env_fail 0" "init 0 1" AttributeError] d(2) f
  have "get_info (env_fail 0) (init 0 1) =
     (Inl AttributeError,
      (init 0 1)\<lparr>cpu_info := setitem ''cpu_name'' (PStr (cpu_name (proc_cpuinfo (env_fail 0))))
                                (cpu_info (init 0 1))\<rparr>,
      [Open_proc_cpuinfo, Call_cpu_freq])"
    by blast
  moreover
  from C3_state_after_a_failed_refresh [of "env_no_max 0" "init 0 1" AttributeError 2400] d(3) g
  have "get_info (env_no_max 0) (init 0 1) =
     (Inl AttributeError,
      (init 0 1)\<lparr>cpu_info := setitem ''cpu_hz_current'' (PFloat 2400)
                      (setitem ''cpu_name'' (PStr (cpu_name (proc_cpuinfo (env_no_max 0))))
                         (cpu_info (init 0 1)))\<rparr>,
      [Open_proc_cpuinfo, Call_cpu_freq, Call_cpu_freq])"
    by blast
  ultimately show ?thesis using r d p f g by blast
qed

text \<open>
  Stated with the stored value kept through a failed refresh, the property fails: a
  refresh at 0 stores two dictionaries, psutil fails at 2, and the stored list is empty
  afterwards; and a first \<open>get_info\<close> on a platform without frequencies raises and leaves
  the dictionary with \<open>cpu_name\<close> alone.
\<close>

theorem C3_counterexample:
  "state (get_percpu (env_ok 0) (init 0 1)) = after_refresh \<and>
   percpu_percent after_refresh = [cpu_a, cpu_b] \<and>
   result (get_percpu (env_fail 2) after_refresh) = Inl OSError \<and>
   percpu_percent (state (get_percpu (env_fail 2) after_refresh)) = [] \<and>
   percpu_percent (state (get_percpu (env_fail 2) after_refresh)) \<noteq> percpu_percent after_refresh \<and>
   cpu_info (init 0 1) = [] \<and>
   result (get_info (env_fail 0) (init 0 1)) = Inl AttributeError \<and>
   cpu_info (state (get_info (env_fail 0) (init 0 1))) = [(''cpu_name'', PStr ''CPU'')]"
proof -
  have "state (get_percpu (env_ok 0) (init 0 1)) = after_refresh"
    by (simp add: get_percpu_env_ok after_refresh_def state_def)
  moreover have "percpu_percent after_refresh = [cpu_a, cpu_b]"
    by (simp add: after_refresh_def)
  moreover have "result (get_percpu (env_fail 2) after_refresh) = Inl OSError"
    and "percpu_percent (state (get_percpu (env_fail 2) after_refresh)) = []"
    and "percpu_percent (state (get_percpu (env_fail 2) after_refresh)) \<noteq> percpu_percent after_refresh"
    by (simp_all add: after_refresh_def state_def result_def get_percpu_def env_fail_def
          init_def Timer_def finished_def)
  moreover have "cpu_info (init 0 1) = []"
    by (simp add: init_def)
  moreover have "result (get_info (env_fail 0) (init 0 1)) = Inl AttributeError"
    and "cpu_info (state (get_info (env_fail 0) (init 0 1))) = [(''cpu_name'', PStr ''CPU'')]"
    by (simp_all add: state_def result_def get_info_def env_fail_def init_def Timer_def
          finished_def freq_attr_def cpu_name_def read_cpu_name_def setitem_def)
  ultimately show ?thesis by blast
qed

text \<open>
  C4: on an answer of two well-formed records, the loop enters its second turn with
  \<open>timer_percpu\<close> already replaced and one dictionary of two stored. When psutil answers
  with two records of which the second has no \<open>idle\<close>, the call raises AttributeError
  after that first turn: half a second later the timer is not due, and the call returns the
  list of one dictionary without asking psutil.
\<close>

theorem C4_timer_is_reset_inside_the_loop:
  "percpu_loop 0 0 [rec_a, rec_b] ((init 0 1)\<lparr>percpu_percent := []\<rparr>) =
     percpu_loop 0 1 [rec_b] ((init 0 1)\<lparr>percpu_percent := [cpu_a], timer_percpu := Timer 0 1\<rparr>) \<and>
   result (get_percpu (env_bad 0) (init 0 1)) = Inl AttributeError \<and>
   state (get_percpu (env_bad 0) (init 0 1)) =
     (init 0 1)\<lparr>percpu_percent := [cpu_a], timer_percpu := Timer 0 1\<rparr> \<and>
   \<not> finished (timer_percpu (state (get_percpu (env_bad 0) (init 0 1)))) (1 / 2) \<and>
   get_percpu (env_ok (1 / 2)) (state (get_percpu (env_bad 0) (init 0 1))) =
     (Inr [cpu_a], (init 0 1)\<lparr>percpu_percent := [cpu_a], timer_percpu := Timer 0 1\<rparr>, [])"
  by (simp add: model_defs example_defs env_bad_def rec_no_idle_def)

text \<open>
  C5: whatever interval the constructor was given, at any instant not before the
  construction the first call of an accessor (its timer still the constructor's) finds the
  timer due and samples: \<open>__get_cpu\<close> calls \<open>psutil.cpu_percent\<close> once, \<open>__get_percpu\<close>
  calls \<open>psutil.cpu_times_percent\<close> once, and \<open>get_info\<close> opens /proc/cpuinfo once and calls
  \<open>psutil.cpu_freq\<close> twice (once if the first call fails).
\<close>

theorem C5_first_call_finds_its_timer_due:
  assumes "now \<le> clock e"
  shows "(timer_cpu s = timer_cpu (init now c) \<longrightarrow>
            finished (timer_cpu s) (clock e) \<and> calls (get_cpu e s) = [Call_cpu_percent]) \<and>
         (timer_percpu s = timer_percpu (init now c) \<longrightarrow>
            finished (timer_percpu s) (clock e) \<and>
            calls (get_percpu e s) = [Call_cpu_times_percent]) \<and>
         (timer_cpu_info s = timer_cpu_info (init now c) \<longrightarrow>
            finished (timer_cpu_info s) (clock e) \<and>
            calls (get_info e s) =
              (if isl (freq_attr current_hz (psutil_cpu_freq_1 e))
               then [Open_proc_cpuinfo, Call_cpu_freq]
               else [Open_proc_cpuinfo, Call_cpu_freq, Call_cpu_freq]))"
proof (intro conjI impI)
  assume "timer_cpu s = timer_cpu (init now c)"
  with assms show "finished (timer_cpu s) (clock e)"
    by (simp add: init_def Timer_def finished_def)
  then show "calls (get_cpu e s) = [Call_cpu_percent]"
    by (simp add: get_cpu_def calls_def Let_def split: sum.splits)
next
  assume "timer_percpu s = timer_percpu (init now c)"
  with assms show "finished (timer_percpu s) (clock e)"
    by (simp add: init_def Timer_def finished_def)
  then show "calls (get_percpu e s) = [Call_cpu_times_percent]"
    by (rule calls_get_percpu_due)
next
  assume "timer_cpu_info s = timer_cpu_info (init now c)"
  with assms show "finished (timer_cpu_info s) (clock e)"
    by (simp add: init_def Timer_def finished_def)
  then show "calls (get_info e s) =
              (if isl (freq_attr current_hz (psutil_cpu_freq_1 e))
               then [Open_proc_cpuinfo, Call_cpu_freq]
               else [Open_proc_cpuinfo, Call_cpu_freq, Call_cpu_freq])"
    by (simp add: get_info_def calls_def Let_def split: sum.splits)
qed

theorem C5_witness:
  "(0::real) \<le> clock (env_ok 3) \<and>
   timer_cpu (state (get_info (env_ok 2) (init 0 7))) = timer_cpu (init 0 7) \<and>
   finished (timer_cpu (state (get_info (env_ok 2) (init 0 7)))) (clock (env_ok 3)) \<and>
   calls (get_cpu (env_ok 3) (state (get_info (env_ok 2) (init 0 7)))) = [Call_cpu_percent] \<and>
   calls (get_percpu (env_ok 3) (init 0 7)) = [Call_cpu_times_percent] \<and>
   calls (get_info (env_ok 3) (init 0 7)) = [Open_proc_cpuinfo, Call_cpu_freq, Call_cpu_freq]"
proof -
  have h: "(0::real) \<le> clock (env_ok 3)"
    by (simp add: env_ok_def)
  have f: "timer_cpu (state (get_info (env_ok 2) (init 0 7))) = timer_cpu (init 0 7)"
    by (rule get_info_frame)
  have i: "\<not> isl (freq_attr current_hz (psutil_cpu_freq_1 (env_ok 3)))"
    by (simp add: env_ok_def freq_attr_def)
  from C5_first_call_finds_its_timer_due [OF h, of "state (get_info (env_ok 2) (init 0 7))" 7] f
  have "finished (timer_cpu (state (get_info (env_ok 2) (init 0 7)))) (clock (env_ok 3))"
    and "calls (get_cpu (env_ok 3) (state (get_info (env_ok 2) (init 0 7)))) = [Call_cpu_percent]"
    by blast+
  moreover from C5_first_call_finds_its_timer_due [OF h, of "init 0 7" 7] i
  have "calls (get_percpu (env_ok 3) (init 0 7)) = [Call_cpu_times_percent]"
    and "calls (get_info (env_ok 3) (init 0 7)) = [Open_proc_cpuinfo, Call_cpu_freq, Call_cpu_freq]"
    by simp_all
  ultimately show ?thesis using h f by blast
qed

text \<open>
  Stated with exactly one call to the provider for each accessor, the property fails
  for \<open>get_info\<close>, which calls \<open>psutil.cpu_freq()\<close> once for each of the two frequencies.
\<close>

theorem C5_counterexample:
  "calls (get_info (env_ok 0) (init 0 1)) = [Open_proc_cpuinfo, Call_cpu_freq, Call_cpu_freq] \<and>
   count_list (calls (get_info (env_ok 0) (init 0 1))) Call_cpu_freq = 2"
  by (simp add: get_info_def calls_def env_ok_def init_def Timer_def finished_def freq_attr_def)

text \<open>
  C6: every dictionary that a refresh of the per-CPU list produces stores under \<open>total\<close>
  the value \<open>round(100 - idle, 1)\<close>, where \<open>idle\<close> is the idle percentage of the record
  at the same position of the provider's answer; the list has one dictionary per record.
\<close>

theorem C6_total_is_rounded_busy_percent:
  assumes "finished (timer_percpu s) (clock e)"
      and "psutil_cpu_times_percent e = Inr recs"
      and "result (get_percpu e s) = Inr cpus"
  shows "length cpus = length recs \<and>
         (\<forall>i<length recs. \<exists>idle.
             getattr (recs ! i) ''idle'' = Inr idle \<and>
             map_of (cpus ! i) ''total'' = Some (PFloat (py_round (100 - idle) 1)))"
proof (intro conjI allI impI)
  from get_percpu_samples [OF assms] show "length cpus = length recs" by simp
next
  fix i assume "i < length recs"
  with get_percpu_samples [OF assms] have "make_cpu i (recs ! i) = Inr (cpus ! i)" by simp
  from make_cpu_fields [OF this]
  show "\<exists>idle. getattr (recs ! i) ''idle'' = Inr idle \<and>
             map_of (cpus ! i) ''total'' = Some (PFloat (py_round (100 - idle) 1))"
    by blast
qed

theorem C6_witness:
  "finished (timer_percpu (init 0 1)) (clock (env_ok 0)) \<and>
   psutil_cpu_times_percent (env_ok 0) = Inr [rec_a, rec_b] \<and>
   result (get_percpu (env_ok 0) (init 0 1)) = Inr [cpu_a, cpu_b] \<and>
   getattr rec_b ''idle'' = Inr (357 / 4) \<and>
   map_of cpu_b ''total'' = Some (PFloat (py_round (100 - 357 / 4) 1))"
proof -
  have h1: "finished (timer_percpu (init 0 1)) (clock (env_ok 0))"
    by (simp add: init_def Timer_def finished_def env_ok_def)
  have h2: "psutil_cpu_times_percent (env_ok 0) = Inr [rec_a, rec_b]"
    by (simp add: env_ok_def)
  have h3: "result (get_percpu (env_ok 0) (init 0 1)) = Inr [cpu_a, cpu_b]"
    by (simp add: get_percpu_env_ok result_def)
  have h4: "getattr rec_b ''idle'' = Inr (357 / 4)"
    by (simp add: getattr_def rec_b_def)
  have n1: "[rec_a, rec_b] ! 1 = rec_b" and n2: "[cpu_a, cpu_b] ! 1 = cpu_b"
    and len: "(1::nat) < length [rec_a, rec_b]"
    by simp_all
  from C6_total_is_rounded_busy_percent [OF h1 h2 h3] len
  obtain idle where g: "getattr ([rec_a, rec_b] ! 1) ''idle'' = Inr idle"
    and m: "map_of ([cpu_a, cpu_b] ! 1) ''total'' = Some (PFloat (py_round (100 - idle) 1))"
    by blast
  from g [unfolded n1 h4] have idle: "idle = 357 / 4"
    by (auto simp only: sum.inject)
  from m [unfolded n2 idle]
  have "map_of cpu_b ''total'' = Some (PFloat (py_round (100 - 357 / 4) 1))" .
  with h1 h2 h3 h4 show ?thesis by blast
qed



text \<open>
  C8: on an object that only the constructor and the methods have touched, a \<open>get_info\<close>
  that refreshes and succeeds returns a dictionary with exactly the keys \<open>cpu_name\<close>,
  \<open>cpu_hz_current\<close> and \<open>cpu_hz\<close>: the name read (or \<open>'CPU'\<close>), the current frequency of
  the first \<open>psutil.cpu_freq()\<close> and the maximum frequency of the second. Every dictionary
  that the next call returns has the same keys.
\<close>

theorem C8_keys_of_the_info_mapping:
  assumes "reachable s"
      and "finished (timer_cpu_info s) (clock e)"
      and "result (get_info e s) = Inr d"
  shows "set (keys d) = {''cpu_name'', ''cpu_hz_current'', ''cpu_hz''} \<and>
         map_of d ''cpu_name'' = Some (PStr (cpu_name (proc_cpuinfo e))) \<and>
         (\<exists>f. psutil_cpu_freq_1 e = Inr (Some f) \<and>
              map_of d ''cpu_hz_current'' = Some (PFloat (current_hz f))) \<and>
         (\<exists>f. psutil_cpu_freq_2 e = Inr (Some f) \<and>
              map_of d ''cpu_hz'' = Some (PFloat (max_hz f))) \<and>
         (\<forall>e' d'. result (get_info e' (state (get_info e s))) = Inr d' \<longrightarrow>
              set (keys d') = {''cpu_name'', ''cpu_hz_current'', ''cpu_hz''})"
proof -
  from assms(2,3) obtain cur mx where
    cur: "freq_attr current_hz (psutil_cpu_freq_1 e) = Inr cur" and
    mx: "freq_attr max_hz (psutil_cpu_freq_2 e) = Inr mx" and
    d: "d = setitem ''cpu_hz'' (PFloat mx) (setitem ''cpu_hz_current'' (PFloat cur)
             (setitem ''cpu_name'' (PStr (cpu_name (proc_cpuinfo e))) (cpu_info s)))"
    by (auto simp: get_info_def result_def Let_def split: sum.splits)
  from reachable_info_keys [OF assms(1)]
  have k: "set (keys d) = {''cpu_name'', ''cpu_hz_current'', ''cpu_hz''}"
    unfolding d by (auto simp: keys_setitem)
  have n: "map_of d ''cpu_name'' = Some (PStr (cpu_name (proc_cpuinfo e)))"
    unfolding d by (simp add: map_of_setitem)
  from cur have c: "\<exists>f. psutil_cpu_freq_1 e = Inr (Some f) \<and>
              map_of d ''cpu_hz_current'' = Some (PFloat (current_hz f))"
    unfolding d by (auto simp: map_of_setitem freq_attr_def split: sum.splits option.splits)
  from mx have m: "\<exists>f. psutil_cpu_freq_2 e = Inr (Some f) \<and>
              map_of d ''cpu_hz'' = Some (PFloat (max_hz f))"
    unfolding d by (auto simp: map_of_setitem freq_attr_def split: sum.splits option.splits)
  have later: "\<forall>e' d'. result (get_info e' (state (get_info e s))) = Inr d' \<longrightarrow>
              set (keys d') = {''cpu_name'', ''cpu_hz_current'', ''cpu_hz''}"
  proof (intro allI impI)
    fix e' d'
    assume r: "result (get_info e' (state (get_info e s))) = Inr d'"
    from k get_info_returns_stored [OF assms(3)]
    have "set (keys (cpu_info (state (get_info e s)))) = {''cpu_name'', ''cpu_hz_current'', ''cpu_hz''}"
      by simp
    from info_keys_complete_get_info [OF this, of e'] get_info_returns_stored [OF r]
    show "set (keys d') = {''cpu_name'', ''cpu_hz_current'', ''cpu_hz''}"
      by simp
  qed
  from k n c m later show ?thesis by blast
qed

theorem C8_witness:
  "reachable (init 0 1) \<and>
   finished (timer_cpu_info (init 0 1)) (clock (env_ok 0)) \<and>
   result (get_info (env_ok 0) (init 0 1)) = Inr info_ok \<and>
   set (keys info_ok) = {''cpu_name'', ''cpu_hz_current'', ''cpu_hz''} \<and>
   result (get_info (env_no_name 5) (state (get_info (env_ok 0) (init 0 1)))) =
     Inr [(''cpu_name'', PStr ''CPU''), (''cpu_hz_current'', PFloat 2400), (''cpu_hz'', PFloat 3600)] \<and>
   set (keys [(''cpu_name'', PStr ''CPU''), (''cpu_hz_current'', PFloat 2400),
              (''cpu_hz'', PFloat 3600)]) = {''cpu_name'', ''cpu_hz_current'', ''cpu_hz''}"
proof -
  have r: "reachable (init 0 1)"
    by (rule reachable_init)
  have f: "finished (timer_cpu_info (init 0 1)) (clock (env_ok 0))"
    by (simp add: due_at_start)
  have g: "result (get_info (env_ok 0) (init 0 1)) = Inr info_ok"
    by (simp add: get_info_env_ok result_def)
  have h: "result (get_info (env_no_name 5) (state (get_info (env_ok 0) (init 0 1)))) =
     Inr [(''cpu_name'', PStr ''CPU''), (''cpu_hz_current'', PFloat 2400), (''cpu_hz'', PFloat 3600)]"
    by (simp add: get_info_env_ok state_def)
       (simp add: model_defs example_defs env_no_name_def)
  note C8 = C8_keys_of_the_info_mapping [OF r f g]
  from C8 have "set (keys info_ok) = {''cpu_name'', ''cpu_hz_current'', ''cpu_hz''}"
    by blast
  moreover from C8 h
  have "set (keys [(''cpu_name'', PStr ''CPU''), (''cpu_hz_current'', PFloat 2400),
              (''cpu_hz'', PFloat 3600)]) = {''cpu_name'', ''cpu_hz_current'', ''cpu_hz''}"
    by blast
  ultimately show ?thesis using r f g h by blast
qed

text \<open>
  Stated with a key \<open>cpu_hz_max\<close>, the property fails: the maximum frequency is stored
  under \<open>cpu_hz\<close>.
\<close>

theorem C8_counterexample:
  "result (get_info (env_ok 0) (init 0 1)) = Inr info_ok \<and>
   keys info_ok = [''cpu_name'', ''cpu_hz_current'', ''cpu_hz''] \<and>
   ''cpu_hz_max'' \<notin> set (keys info_ok)"
  by (simp add: get_info_env_ok result_def) (simp add: info_ok_def keys_def)



text \<open>
  C10: every dictionary that a refresh of the per-CPU list produces has the key \<open>key\<close>,
  whose value is the string that \<open>get_key\<close> returns, \<open>cpu_number\<close>.
\<close>

theorem C10_key_field:
  assumes "finished (timer_percpu s) (clock e)"
      and "psutil_cpu_times_percent e = Inr recs"
      and "result (get_percpu e s) = Inr cpus"
      and "i < length cpus"
  shows "map_of (cpus ! i) ''key'' = Some (PStr get_key) \<and> get_key = ''cpu_number''"
proof -
  from get_percpu_samples [OF assms(1-3)] assms(4)
  have "make_cpu i (recs ! i) = Inr (cpus ! i)" by simp
  from make_cpu_fields [OF this] show ?thesis
    by (auto simp: get_key_def)
qed

theorem C10_witness:
  "finished (timer_percpu (init 0 1)) (clock (env_ok 0)) \<and>
   psutil_cpu_times_percent (env_ok 0) = Inr [rec_a, rec_b] \<and>
   result (get_percpu (env_ok 0) (init 0 1)) = Inr [cpu_a, cpu_b] \<and>
   (0::nat) < length [cpu_a, cpu_b] \<and>
   map_of cpu_a ''key'' = Some (PStr get_key)"
proof -
  have h1: "finished (timer_percpu (init 0 1)) (clock (env_ok 0))"
    by (simp add: init_def Timer_def finished_def env_ok_def)
  have h2: "psutil_cpu_times_percent (env_ok 0) = Inr [rec_a, rec_b]"
    by (simp add: env_ok_def)
  have h3: "result (get_percpu (env_ok 0) (init 0 1)) = Inr [cpu_a, cpu_b]"
    by (simp add: get_percpu_env_ok result_def)
  have h4: "(0::nat) < length [cpu_a, cpu_b]"
    by simp
  from C10_key_field [OF h1 h2 h3 h4] have "map_of cpu_a ''key'' = Some (PStr get_key)"
    by simp
  with h1 h2 h3 h4 show ?thesis by blast
qed

end
